theory Spec2Isabelle
  imports Complex_Main
begin

section \<open>Hydrogen atom: closed-form evaluators and solver placeholders\<close>

text \<open>
  A shallow embedding of \<^verbatim>\<open>src/wavefunctions.py\<close>, \<^verbatim>\<open>src/schrodinger.py\<close> and
  \<^verbatim>\<open>src/__init__.py\<close>.

  Conventions of the embedding:
  \<^item> a Python \<^verbatim>\<open>int\<close> (a quantum number) is an \<^typ>\<open>int\<close>;
  \<^item> a Python \<^verbatim>\<open>float\<close> is a \<^typ>\<open>real\<close>: the arithmetic is the exact one, the
    rounding and the finite range of binary64 are not part of the model;
  \<^item> a \<^verbatim>\<open>complex\<close> is a \<^typ>\<open>complex\<close>;
  \<^item> a coordinate argument (\<^verbatim>\<open>r\<close>, \<^verbatim>\<open>theta\<close>, \<^verbatim>\<open>phi\<close>) is one sample; numpy applies
    the same expression to every element of an array;
  \<^item> a \<^verbatim>\<open>raise\<close> is the \<open>Inl\<close> branch of a sum, a returned value the \<open>Inr\<close> branch.
\<close>

subsection \<open>Exceptions\<close>

text \<open>
  \<^verbatim>\<open>ModuleNotFoundError\<close> is the subclass of \<^verbatim>\<open>ImportError\<close> that the import system
  raises for a module it cannot find; both carry the name that was looked for.
\<close>

datatype error =
    ValueError
  | ZeroDivisionError
  | ImportError string
  | ModuleNotFoundError string

fun isinstance_ImportError :: "error \<Rightarrow> bool" where
  "isinstance_ImportError (ImportError _) = True"
| "isinstance_ImportError (ModuleNotFoundError _) = True"
| "isinstance_ImportError _ = False"

subsection \<open>Energy eigenvalue\<close>


subsection \<open>Special functions of the numerics library\<close>

text \<open>
  \<^verbatim>\<open>scipy.special.factorial(k)\<close> (with its default \<^verbatim>\<open>exact=False\<close>) is \<open>k!\<close> as a float
  for \<open>k \<ge> 0\<close> and \<open>0\<close> for a negative \<open>k\<close>.
\<close>

definition factorial :: "int \<Rightarrow> real" where
  "factorial k = (if k < 0 then 0 else fact (nat k))"

text \<open>
  \<^verbatim>\<open>scipy.special.genlaguerre(k, alpha)\<close> is the generalized (associated) Laguerre
  polynomial \<open>L\<^sub>k\<^sup>\<alpha>\<close>, called on a point to evaluate it there. Its closed form is
  \<open>\<Sum>i \<le> k. (-1)\<^sup>i binom(k + \<alpha>, k - i) x\<^sup>i / i!\<close>; the upper index passed by this
  program is the non-negative integer \<open>2 l + 1\<close>.
\<close>

definition genlaguerre :: "nat \<Rightarrow> nat \<Rightarrow> real \<Rightarrow> real" where
  "genlaguerre k alpha x =
     (\<Sum>i\<leftarrow>[0..<Suc k]. (- 1) ^ i * real ((k + alpha) choose (k - i)) * x ^ i / fact i)"

subsection \<open>Radial wavefunction\<close>

text \<open>
  \<^verbatim>\<open>
  def hydrogen_radial(r, n, l, normalized=True):
      r = np.asarray(r, dtype=float)
      if n < 1 or l < 0 or l >= n:
          raise ValueError(f"Invalid quantum numbers: n={n}, l={l}")
      norm = np.sqrt((2.0 / n)**3 * factorial(n - l - 1) / (2*n*factorial(n + l)))
      rho = 2 * r / n
      L = genlaguerre(n - l - 1, 2*l + 1)
      R = norm * np.exp(-rho/2) * (rho)**l * L(rho)
      return R
  \<close>
  Past the guard \<open>n - l - 1\<close>, \<open>2 l + 1\<close> and \<open>l\<close> are non-negative, so that their
  conversion to \<^typ>\<open>nat\<close> loses nothing.
\<close>

definition hydrogen_radial :: "real \<Rightarrow> int \<Rightarrow> int \<Rightarrow> bool \<Rightarrow> error + real" where
  "hydrogen_radial r n l normalized =
     (if n < 1 \<or> l < 0 \<or> l \<ge> n then Inl ValueError
      else
        let norm = sqrt ((2.0 / real_of_int n) ^ 3 * factorial (n - l - 1)
                         / (2 * real_of_int n * factorial (n + l)));
            rho = 2 * r / real_of_int n;
            L = genlaguerre (nat (n - l - 1)) (nat (2 * l + 1))
        in Inr (norm * exp (- rho / 2) * rho ^ nat l * L rho))"

subsection \<open>Spherical harmonic\<close>

text \<open>
  \<^verbatim>\<open>
  def spherical_harmonic(theta, phi, l, m):
      if abs(m) > l:
          raise ValueError(f"Invalid quantum numbers: l={l}, m={m}")
      Y = sph_harm(m, l, phi, theta)
      return Y
  \<close>
  \<^verbatim>\<open>scipy.special.sph_harm\<close> is a routine of the numerics library, defined on every
  argument; the model takes it as the parameter \<open>sph_harm\<close>, with the library's order
  of arguments.
\<close>

definition spherical_harmonic ::
    "(int \<Rightarrow> int \<Rightarrow> real \<Rightarrow> real \<Rightarrow> complex) \<Rightarrow> real \<Rightarrow> real \<Rightarrow> int \<Rightarrow> int \<Rightarrow> error + complex" where
  "spherical_harmonic sph_harm theta phi l m =
     (if \<bar>m\<bar> > l then Inl ValueError
      else Inr (sph_harm m l phi theta))"

subsection \<open>Complete wavefunction and radial probability density\<close>

text \<open>
  \<^verbatim>\<open>
  def hydrogen_wavefunction(r, theta, phi, n, l, m, normalize=True):
      R = hydrogen_radial(r, n, l, normalized=normalize)
      Y = spherical_harmonic(theta, phi, l, m)
      psi = R * Y
      return psi
  \<close>
  An exception of the first call leaves the function before the second call is made.
  The flag \<^verbatim>\<open>normalize\<close> is written \<open>normalize'\<close>.
\<close>

definition hydrogen_wavefunction ::
    "(int \<Rightarrow> int \<Rightarrow> real \<Rightarrow> real \<Rightarrow> complex) \<Rightarrow> real \<Rightarrow> real \<Rightarrow> real \<Rightarrow> int \<Rightarrow> int \<Rightarrow> int \<Rightarrow> bool
      \<Rightarrow> error + complex" where
  "hydrogen_wavefunction sph_harm r theta phi n l m normalize' =
     (case hydrogen_radial r n l normalize' of
        Inl e \<Rightarrow> Inl e
      | Inr R \<Rightarrow>
          (case spherical_harmonic sph_harm theta phi l m of
             Inl e \<Rightarrow> Inl e
           | Inr Y \<Rightarrow> Inr (complex_of_real R * Y)))"

text \<open>
  \<^verbatim>\<open>
  def probability_density_radial(r, n, l):
      R = hydrogen_radial(r, n, l, normalized=True)
      P = r**2 * np.abs(R)**2
      return P
  \<close>
\<close>

definition probability_density_radial :: "real \<Rightarrow> int \<Rightarrow> int \<Rightarrow> error + real" where
  "probability_density_radial r n l =
     (case hydrogen_radial r n l True of
        Inl e \<Rightarrow> Inl e
      | Inr R \<Rightarrow> Inr (r ^ 2 * \<bar>R\<bar> ^ 2))"

subsection \<open>Expectation value of the radius\<close>

text \<open>
  \<^verbatim>\<open>
  BOHR_RADIUS = 1.0  # a_0 = 1 in a.u.

  def expectation_value_r(n, l):
      return BOHR_RADIUS * n**2 * (1.5 - l*(l+1)/(2*n**2))
  \<close>
  The quotient is Python's true division of two \<^verbatim>\<open>int\<close>s: a \<^verbatim>\<open>float\<close>, and
  \<^verbatim>\<open>ZeroDivisionError\<close> when the divisor \<open>2 n\<^sup>2\<close> is zero.
\<close>

definition BOHR_RADIUS :: real where
  "BOHR_RADIUS = 1.0"

definition expectation_value_r :: "int \<Rightarrow> int \<Rightarrow> error + real" where
  "expectation_value_r n l =
     (if 2 * n ^ 2 = 0 then Inl ZeroDivisionError
      else Inr (BOHR_RADIUS * real_of_int (n ^ 2)
                * (1.5 - real_of_int (l * (l + 1)) / real_of_int (2 * n ^ 2))))"

subsection \<open>Solver placeholders\<close>

text \<open>
  What a call hands back to its caller: \<^verbatim>\<open>None\<close>, a float, an array of floats, or a
  tuple of such values.
\<close>

datatype pyval =
    PyNone
  | PyFloat real
  | PyArray "real list"
  | PyTuple "pyval list"





subsection \<open>Package initialisation\<close>

text \<open>
  \<^verbatim>\<open>src/__init__.py\<close> assigns four dunder names and then runs five statements
  \<^verbatim>\<open>from .module import (names)\<close>, none of them inside a \<^verbatim>\<open>try\<close>. Such a statement
  loads the sibling module (\<^verbatim>\<open>ModuleNotFoundError\<close> when the package has no such
  module), looks every listed name up in it (\<^verbatim>\<open>ImportError\<close> for the first one
  missing) and binds the names, and the submodule itself, in the package's namespace.
  The modules that a package holds are a table from module name to the names the
  module defines at its top level.
\<close>

datatype import_stmt = FromImport string "string list"

type_synonym module_table = "(string \<times> string list) list"

fun exec_import :: "module_table \<Rightarrow> import_stmt \<Rightarrow> error + string list" where
  "exec_import mods (FromImport m names) =
     (case map_of mods m of
        None \<Rightarrow> Inl (ModuleNotFoundError m)
      | Some defined \<Rightarrow>
          (case find (\<lambda>x. x \<notin> set defined) names of
             Some x \<Rightarrow> Inl (ImportError x)
           | None \<Rightarrow> Inr (m # names)))"

fun exec_imports :: "module_table \<Rightarrow> string list \<Rightarrow> import_stmt list \<Rightarrow> error + string list" where
  "exec_imports mods ns [] = Inr ns"
| "exec_imports mods ns (s # ss) =
     (case exec_import mods s of
        Inl e \<Rightarrow> Inl e
      | Inr bound \<Rightarrow> exec_imports mods (ns @ bound) ss)"

definition package_init :: "import_stmt list" where
  "package_init =
     [FromImport ''wavefunctions''
        [''hydrogen_wavefunction'', ''hydrogen_radial'', ''spherical_harmonic'',
         ''probability_density_radial''],
      FromImport ''schrodinger''
        [''energy_eigenvalue'', ''solve_radial_schrodinger''],
      FromImport ''numerics''
        [''finite_difference_solver'', ''shooting_method''],
      FromImport ''visualization''
        [''plot_probability_density'', ''plot_radial_distribution'', ''plot_energy_levels''],
      FromImport ''spectroscopy''
        [''transition_frequency'', ''oscillator_strength'', ''selection_rules'']]"

definition import_package :: "module_table \<Rightarrow> error + string list" where
  "import_package mods =
     exec_imports mods [''__version__'', ''__author__'', ''__email__'', ''__license__'']
       package_init"

text \<open>
  The package directory of the repository holds, beside \<^verbatim>\<open>__init__.py\<close>, the two
  modules \<^verbatim>\<open>wavefunctions.py\<close> and \<^verbatim>\<open>schrodinger.py\<close>, with these top-level names.
\<close>

definition repository_modules :: module_table where
  "repository_modules =
     [(''wavefunctions'',
         [''np'', ''genlaguerre'', ''sph_harm'', ''factorial'', ''quad'', ''warnings'',
          ''BOHR_RADIUS'', ''RYDBERG_ENERGY'', ''FINE_STRUCTURE'',
          ''hydrogen_radial'', ''spherical_harmonic'', ''hydrogen_wavefunction'',
          ''probability_density_radial'', ''expectation_value_r'',
          ''expectation_value_r_squared'', ''uncertainty_r'', ''energy_eigenvalue'',
          ''normalization_check'']),
      (''schrodinger'',
         [''np'', ''odeint'', ''solve_bvp'', ''eigh'', ''energy_eigenvalue'',
          ''solve_radial_schrodinger'', ''RadialSolver''])]"

section \<open>Properties\<close>

subsection \<open>Energy eigenvalue\<close>



subsection \<open>Radial wavefunction\<close>

lemma genlaguerre_0 [simp]: "genlaguerre 0 alpha x = 1"
  by (simp add: genlaguerre_def)

lemma genlaguerre_1: "genlaguerre 1 alpha x = 1 + real alpha - x"
  by (simp add: genlaguerre_def)

lemma hydrogen_radial_1s: "hydrogen_radial r 1 0 normalized = Inr (2 * exp (- r))"
  by (simp add: hydrogen_radial_def factorial_def)



text \<open>
  C9. For all \<open>0 < r1 < r2\<close>, \<^verbatim>\<open>hydrogen_radial(r2, n=1, l=0)\<close> is at most
  \<^verbatim>\<open>hydrogen_radial(r1, n=1, l=0)\<close>: the ground-state radial wavefunction, which is
  \<open>2 exp (- r)\<close>, does not increase with \<open>r\<close>.
\<close>

theorem hydrogen_radial_1s_antimono:
  assumes "0 < r1" and "r1 < r2"
  shows "\<exists>R1 R2. hydrogen_radial r1 1 0 normalized = Inr R1
            \<and> hydrogen_radial r2 1 0 normalized = Inr R2
            \<and> R2 \<le> R1"
proof -
  from assms have "2 * exp (- r2) \<le> 2 * exp (- r1)"
    by simp
  then show ?thesis
    by (simp add: hydrogen_radial_1s)
qed

theorem hydrogen_radial_1s_antimono_witness:
  "(0::real) < 1 \<and> (1::real) < 2
   \<and> (\<exists>R1 R2. hydrogen_radial 1 1 0 True = Inr R1
         \<and> hydrogen_radial 2 1 0 True = Inr R2
         \<and> R2 \<le> R1)"
  using hydrogen_radial_1s_antimono [of 1 2 True]
  by simp

subsection \<open>Spherical harmonic\<close>

text \<open>
  C7. \<^verbatim>\<open>spherical_harmonic(theta, phi, l, m)\<close> raises \<^verbatim>\<open>ValueError\<close> whenever \<open>|m| > l\<close>,
  at every pair of angles, and for integers \<open>l \<ge> 0\<close> with \<open>|m| \<le> l\<close> it does not raise:
  it returns the value of the library routine.
\<close>

theorem spherical_harmonic_contract:
  "(\<bar>m\<bar> > l \<longrightarrow> spherical_harmonic sph_harm theta phi l m = Inl ValueError)
   \<and> (0 \<le> l \<and> \<bar>m\<bar> \<le> l \<longrightarrow>
        spherical_harmonic sph_harm theta phi l m = Inr (sph_harm m l phi theta))"
  by (simp add: spherical_harmonic_def)

theorem spherical_harmonic_contract_witness:
  "\<bar>2::int\<bar> > 1
   \<and> spherical_harmonic (\<lambda>m l phi theta. cis (real_of_int m * phi)) 0 0 1 2 = Inl ValueError
   \<and> (0::int) \<le> 1 \<and> \<bar>- 1::int\<bar> \<le> 1
   \<and> spherical_harmonic (\<lambda>m l phi theta. cis (real_of_int m * phi)) 0 0 1 (- 1) = Inr 1"
  using spherical_harmonic_contract [of 1 2 "\<lambda>m l phi theta. cis (real_of_int m * phi)" 0 0]
    spherical_harmonic_contract [of 1 "- 1" "\<lambda>m l phi theta. cis (real_of_int m * phi)" 0 0]
  by simp

subsection \<open>Composition\<close>

text \<open>
  C8. For valid quantum numbers (\<open>n \<ge> 1\<close>, \<open>0 \<le> l < n\<close>, \<open>|m| \<le> l\<close>) and all coordinates,
  \<^verbatim>\<open>hydrogen_wavefunction(r, theta, phi, n, l, m)\<close> is the product of what
  \<^verbatim>\<open>hydrogen_radial(r, n, l)\<close> and \<^verbatim>\<open>spherical_harmonic(theta, phi, l, m)\<close> return, and
  \<^verbatim>\<open>probability_density_radial(r, n, l)\<close> is \<open>r\<^sup>2\<close> times the squared modulus of what
  \<^verbatim>\<open>hydrogen_radial(r, n, l)\<close> returns: both are compositions of these calls alone.
\<close>

theorem composite_is_product:
  assumes "1 \<le> n" and "0 \<le> l" and "l < n" and "\<bar>m\<bar> \<le> l"
  shows "\<exists>R Y. hydrogen_radial r n l normalized = Inr R
           \<and> spherical_harmonic sph_harm theta phi l m = Inr Y
           \<and> hydrogen_wavefunction sph_harm r theta phi n l m normalized
               = Inr (complex_of_real R * Y)
           \<and> hydrogen_radial r n l True = Inr R
           \<and> probability_density_radial r n l = Inr (r\<^sup>2 * \<bar>R\<bar>\<^sup>2)"
  using assms
  by (simp add: hydrogen_wavefunction_def probability_density_radial_def
      hydrogen_radial_def spherical_harmonic_def Let_def)

theorem composite_is_product_witness:
  "(1::int) \<le> 1 \<and> (0::int) \<le> 0 \<and> (0::int) < 1 \<and> \<bar>0::int\<bar> \<le> 0
   \<and> hydrogen_wavefunction (\<lambda>m l phi theta. complex_of_real (1 / (2 * sqrt pi)))
         1 0 0 1 0 0 True
       = Inr (complex_of_real (2 * exp (- 1)) * complex_of_real (1 / (2 * sqrt pi)))
   \<and> probability_density_radial 1 1 0 = Inr (1\<^sup>2 * \<bar>2 * exp (- 1)\<bar>\<^sup>2)"
  using composite_is_product [of 1 0 0 1 True
      "\<lambda>m l phi theta. complex_of_real (1 / (2 * sqrt pi))" 0 0]
  by (simp add: hydrogen_radial_1s spherical_harmonic_def)

text \<open>
  C10. The flag \<^verbatim>\<open>normalized\<close> of \<^verbatim>\<open>hydrogen_radial\<close> and the flag \<^verbatim>\<open>normalize\<close> of
  \<^verbatim>\<open>hydrogen_wavefunction\<close> change nothing: at every input, the call with the flag
  \<^verbatim>\<open>False\<close> returns (or raises) what the call with the flag \<^verbatim>\<open>True\<close> does.
\<close>

theorem normalized_flag_ignored:
  "hydrogen_radial r n l False = hydrogen_radial r n l True
   \<and> hydrogen_wavefunction sph_harm r theta phi n l m False
       = hydrogen_wavefunction sph_harm r theta phi n l m True"
  by (simp add: hydrogen_radial_def hydrogen_wavefunction_def)

subsection \<open>Expectation value of the radius\<close>

text \<open>
  C6. \<^verbatim>\<open>expectation_value_r(n=1, l=0)\<close> returns \<open>1.5\<close>, and \<^verbatim>\<open>expectation_value_r(2, 0)\<close>,
  which is \<open>6\<close>, is strictly greater than \<^verbatim>\<open>expectation_value_r(2, 1)\<close>, which is \<open>5\<close>.
\<close>

theorem expectation_value_r_values:
  "expectation_value_r 1 0 = Inr 1.5
   \<and> (\<exists>a b. expectation_value_r 2 0 = Inr a \<and> expectation_value_r 2 1 = Inr b \<and> a > b)"
  by (simp add: expectation_value_r_def BOHR_RADIUS_def)

subsection \<open>Solver placeholders\<close>




subsection \<open>Package initialisation\<close>

lemma exec_import_error:
  "exec_import mods s = Inl e \<Longrightarrow> isinstance_ImportError e"
  by (cases s) (auto split: option.splits)

lemma exec_imports_missing_module:
  "FromImport m names \<in> set ss \<Longrightarrow> map_of mods m = None \<Longrightarrow>
   \<exists>e. exec_imports mods ns ss = Inl e \<and> isinstance_ImportError e"
proof (induction ss arbitrary: ns)
  case Nil
  then show ?case by simp
next
  case (Cons s ss)
  show ?case
  proof (cases "exec_import mods s")
    case (Inl e)
    then show ?thesis
      by (simp add: exec_import_error)
  next
    case (Inr bound)
    with Cons.prems have "s \<noteq> FromImport m names"
      by auto
    with Cons.prems have "FromImport m names \<in> set ss"
      by simp
    from Cons.IH [OF this Cons.prems(2)] Inr show ?thesis
      by simp
  qed
qed

lemma package_init_imports:
  "FromImport ''numerics'' [''finite_difference_solver'', ''shooting_method'']
     \<in> set package_init"
  "FromImport ''visualization''
     [''plot_probability_density'', ''plot_radial_distribution'', ''plot_energy_levels'']
     \<in> set package_init"
  "FromImport ''spectroscopy''
     [''transition_frequency'', ''oscillator_strength'', ''selection_rules'']
     \<in> set package_init"
  by (simp_all add: package_init_def)

lemma import_package_missing:
  assumes "map_of mods ''numerics'' = None \<or> map_of mods ''visualization'' = None
        \<or> map_of mods ''spectroscopy'' = None"
  shows "\<exists>e. import_package mods = Inl e \<and> isinstance_ImportError e"
  using assms unfolding import_package_def
  by (elim disjE) (erule exec_imports_missing_module [OF package_init_imports(1)],
      erule exec_imports_missing_module [OF package_init_imports(2)],
      erule exec_imports_missing_module [OF package_init_imports(3)])

lemma import_package_repository:
  "import_package repository_modules = Inl (ModuleNotFoundError ''numerics'')"
  by (simp add: import_package_def repository_modules_def package_init_def)

lemma repository_modules_absent:
  "map_of repository_modules ''numerics'' = None"
  "map_of repository_modules ''visualization'' = None"
  "map_of repository_modules ''spectroscopy'' = None"
  by (simp_all add: repository_modules_def)

text \<open>
  C4. Importing the package raises an \<^verbatim>\<open>ImportError\<close> (its subclass
  \<^verbatim>\<open>ModuleNotFoundError\<close>, for \<^verbatim>\<open>numerics\<close>): \<^verbatim>\<open>__init__.py\<close> imports \<^verbatim>\<open>numerics\<close>,
  \<^verbatim>\<open>visualization\<close> and \<^verbatim>\<open>spectroscopy\<close> unconditionally, the repository has none of
  the three, and a package directory that lacks any one of them cannot be imported.
  The import yields no namespace, so that no function is reached through the package.
\<close>

theorem package_import_fails:
  "import_package repository_modules = Inl (ModuleNotFoundError ''numerics'')
   \<and> isinstance_ImportError (ModuleNotFoundError ''numerics'')
   \<and> (\<forall>ns. import_package repository_modules \<noteq> Inr ns)
   \<and> map_of repository_modules ''numerics'' = None
   \<and> map_of repository_modules ''visualization'' = None
   \<and> map_of repository_modules ''spectroscopy'' = None
   \<and> (map_of mods ''numerics'' = None \<or> map_of mods ''visualization'' = None
        \<or> map_of mods ''spectroscopy'' = None
      \<longrightarrow> (\<exists>e. import_package mods = Inl e \<and> isinstance_ImportError e))"
proof (intro conjI allI impI)
  show "import_package repository_modules = Inl (ModuleNotFoundError ''numerics'')"
    by (rule import_package_repository)
  show "isinstance_ImportError (ModuleNotFoundError ''numerics'')"
    by (rule isinstance_ImportError.simps(2) [THEN iffD2, OF TrueI])
  show "import_package repository_modules \<noteq> Inr ns" for ns
    unfolding import_package_repository by (rule sum.distinct(1))
  show "map_of repository_modules ''numerics'' = None"
    "map_of repository_modules ''visualization'' = None"
    "map_of repository_modules ''spectroscopy'' = None"
    by (rule repository_modules_absent)+
  show "\<exists>e. import_package mods = Inl e \<and> isinstance_ImportError e"
    if "map_of mods ''numerics'' = None \<or> map_of mods ''visualization'' = None
        \<or> map_of mods ''spectroscopy'' = None"
    using that by (rule import_package_missing)
qed

theorem package_import_fails_witness:
  "map_of repository_modules ''spectroscopy'' = None
   \<and> (\<exists>e. import_package repository_modules = Inl e \<and> isinstance_ImportError e)"
  using package_import_fails [of repository_modules]
  by blast

end
